theory Spec2Isabelle
  imports Main "HOL-Library.Word" "HOL-Library.Sublist"
begin

section \<open>HTTP definitions: dates, cache directives, display strings\<close>

text \<open>
  A shallow embedding of \<^verbatim>\<open>src/common/http_defs.cc\<close>. Exceptions are values of the
  type \<open>error\<close>, and a function that may throw returns \<open>error + 'a\<close> (\<open>Inl\<close> the
  exception). The declarations of the header (the enumerations, the members of the classes,
  the macros \<^verbatim>\<open>HTTP_METHODS\<close>, \<^verbatim>\<open>STATUS_CODES\<close>, \<^verbatim>\<open>PST_GMTIME_R\<close>) and the date library
  behind \<^verbatim>\<open>date::parse\<close> and \<^verbatim>\<open>date::to_stream\<close> are not part of the source file; they
  enter the model as parameters, or as the declarations described where they are introduced.
\<close>

subsection \<open>Exceptions\<close>

text \<open>
  \<open>Runtime_error\<close> and \<open>Domain_error\<close> carry the message the source constructs them
  with. \<open>Invalid_argument\<close> and \<open>Out_of_range\<close> are the two exceptions of
  \<^verbatim>\<open>std::stoull\<close>. \<open>Unreachable\<close> stands for control reaching
  \<^verbatim>\<open>Pistache::details::unreachable()\<close>.
\<close>

datatype error =
    Runtime_error string
  | Domain_error string
  | Invalid_argument
  | Out_of_range
  | Unreachable

subsection \<open>Durations and time points\<close>

text \<open>
  \<^verbatim>\<open>std::chrono::seconds\<close> counts seconds in a signed 64-bit integer: the word is read with
  \<open>sint\<close>. Modelled from the spec: \<^verbatim>\<open>FullDate::time_point\<close> is declared in the header; the
  spec describes it as an instant of whole-second precision, built from and converted to a
  count of seconds, so a time point holds the duration since the epoch in seconds.
\<close>

type_synonym seconds = "64 word"

definition count :: "seconds \<Rightarrow> int" where
  "count d = sint d"

datatype time_point = TimePoint (time_since_epoch: seconds)

text \<open>The member \<^verbatim>\<open>date_\<close> of \<^verbatim>\<open>FullDate\<close> is the selector \<open>date_mem\<close>.\<close>

datatype FullDate = FullDate (date_mem: time_point)

subsection \<open>The epoch recognizer\<close>

definition isdigit :: "char \<Rightarrow> bool" where
  "isdigit c = (48 \<le> (of_char c :: nat) \<and> (of_char c :: nat) \<le> 57)"

definition isspace :: "char \<Rightarrow> bool" where
  "isspace c = ((of_char c :: nat) = 32 \<or> (9 \<le> (of_char c :: nat) \<and> (of_char c :: nat) \<le> 13))"

definition digit_value :: "char \<Rightarrow> nat" where
  "digit_value c = of_char c - 48"

primrec accumulate :: "nat \<Rightarrow> string \<Rightarrow> nat" where
  "accumulate acc [] = acc"
| "accumulate acc (c # cs) = accumulate (10 * acc + digit_value c) cs"

text \<open>
  \<^verbatim>\<open>std::stoull(s)\<close> in base 10: white space is skipped, one sign is accepted, then the
  longest run of digits is converted. No digit at all raises \<^verbatim>\<open>std::invalid_argument\<close>; a
  value above \<open>2^64 - 1\<close> raises \<^verbatim>\<open>std::out_of_range\<close>; a minus sign negates the value in
  the unsigned type.
\<close>

definition stoull :: "string \<Rightarrow> error + 64 word" where
  "stoull str =
     (let s1 = dropWhile isspace str;
          neg = (s1 \<noteq> [] \<and> hd s1 = CHR ''-'');
          s2 = (if s1 \<noteq> [] \<and> (hd s1 = CHR ''-'' \<or> hd s1 = CHR ''+'') then tl s1 else s1);
          ds = takeWhile isdigit s2
      in if ds = [] then Inl Invalid_argument
         else if 18446744073709551615 < accumulate 0 ds then Inl Out_of_range
         else Inr (if neg then - word_of_nat (accumulate 0 ds) else word_of_nat (accumulate 0 ds)))"

text \<open>
  The loop of \<^verbatim>\<open>parse_epoch\<close>: it leaves with \<open>false\<close> at the first character that is not
  a digit. The index is an \<^verbatim>\<open>unsigned int\<close>; the model is of strings shorter than \<open>2^32\<close>
  characters, on which the index does not wrap.
\<close>

fun only_digits :: "string \<Rightarrow> bool" where
  "only_digits [] = True"
| "only_digits (c # cs) = (if \<not> isdigit c then False else only_digits cs)"

text \<open>
  \<^verbatim>\<open>std::chrono::seconds(std::stoull(s))\<close> converts the \<^verbatim>\<open>unsigned long long\<close> to the signed
  representation of \<^verbatim>\<open>seconds\<close>: the value modulo \<open>2^64\<close>, read as two's complement.
\<close>

definition seconds_of_ull :: "64 word \<Rightarrow> seconds" where
  "seconds_of_ull v = word_of_int (uint v)"

text \<open>
  \<^verbatim>\<open>parse_epoch\<close> returns a \<^verbatim>\<open>bool\<close> and assigns the time point on success: \<open>Inr None\<close> is
  the return of \<open>false\<close>, \<open>Inr (Some tp)\<close> the return of \<open>true\<close> with \<open>tp\<close> assigned, and
  \<open>Inl e\<close> an exception that leaves the function. Only \<^verbatim>\<open>std::out_of_range\<close> is caught.
\<close>

definition parse_epoch :: "string \<Rightarrow> error + time_point option" where
  "parse_epoch s =
     (if \<not> only_digits s then Inr None
      else (case stoull s of
              Inr v \<Rightarrow> Inr (Some (TimePoint (seconds_of_ull v)))
            | Inl Out_of_range \<Rightarrow> Inr None
            | Inl e \<Rightarrow> Inl e))"

subsection \<open>The textual recognizers\<close>

text \<open>
  \<^verbatim>\<open>in >> date::parse(fmt, tp)\<close> belongs to the date library. It is a parameter of the
  model: \<open>parse fmt s\<close> is \<open>None\<close> when the stream over \<open>s\<close> has failed, and \<open>Some tp\<close>
  when it has not and \<open>tp\<close> was assigned.
\<close>

type_synonym date_parse = "string \<Rightarrow> string \<Rightarrow> time_point option"

definition parse_RFC_1123 :: "date_parse \<Rightarrow> string \<Rightarrow> time_point option" where
  "parse_RFC_1123 parse s =
     (case parse ''%a, %d %b %Y %T %Z'' s of
        None \<Rightarrow> parse ''%a, %d-%b-%Y %T %Z'' s
      | Some tp \<Rightarrow> Some tp)"

definition parse_RFC_850 :: "date_parse \<Rightarrow> string \<Rightarrow> time_point option" where
  "parse_RFC_850 parse s = parse ''%A, %d-%b-%y %T %Z'' s"

definition parse_asctime :: "date_parse \<Rightarrow> string \<Rightarrow> time_point option" where
  "parse_asctime parse s = parse ''%a %b %d %T %Y'' s"

subsection \<open>FullDate::fromString\<close>

text \<open>
  The debug log line written before the throw does not change the result and is left out.
\<close>

definition fromString :: "date_parse \<Rightarrow> string \<Rightarrow> error + FullDate" where
  "fromString parse str =
     (case parse_RFC_1123 parse str of
        Some tp \<Rightarrow> Inr (FullDate tp)
      | None \<Rightarrow>
     (case parse_RFC_850 parse str of
        Some tp \<Rightarrow> Inr (FullDate tp)
      | None \<Rightarrow>
     (case parse_asctime parse str of
        Some tp \<Rightarrow> Inr (FullDate tp)
      | None \<Rightarrow>
     (case parse_epoch str of
        Inl e \<Rightarrow> Inl e
      | Inr (Some tp) \<Rightarrow> Inr (FullDate tp)
      | Inr None \<Rightarrow> Inl (Runtime_error ''Invalid Date format'')))))"

text \<open>
  A date library tabulated on four texts, one for each pattern, and failing elsewhere. It
  gives the recognizers concrete inputs to run on.
\<close>

definition tabulated_parse :: date_parse where
  "tabulated_parse fmt s =
     (if fmt = ''%a, %d %b %Y %T %Z'' \<and> s = ''Mon, 02 Jan 2006 15:04:05 GMT''
        then Some (TimePoint 1136214245)
      else if fmt = ''%a, %d-%b-%Y %T %Z'' \<and> s = ''Mon, 26-May-2025 18:38:48 GMT''
        then Some (TimePoint 1748284728)
      else if fmt = ''%A, %d-%b-%y %T %Z'' \<and> s = ''Sunday, 06-Nov-94 08:49:37 GMT''
        then Some (TimePoint 784111777)
      else if fmt = ''%a %b %d %T %Y'' \<and> s = ''Sun Nov  6 08:49:37 1994''
        then Some (TimePoint 784111777)
      else None)"

subsection \<open>CacheDirective\<close>

text \<open>
  Modelled from the spec: the enumeration \<^verbatim>\<open>CacheDirective::Directive\<close> is declared in the
  header. The source names its four duration-bearing enumerators; the spec names
  \<open>NoCache\<close>, \<open>NoStore\<close>, \<open>Private\<close> and \<open>Public\<close> among the flag-only ones and
  leaves the rest of the set open: \<open>Directive_other n\<close> is any further enumerator.
\<close>

datatype Directive =
    MaxAge | SMaxAge | MaxStale | MinFresh
  | NoCache | NoStore | Private | Public
  | Directive_other nat

text \<open>
  The member \<^verbatim>\<open>data\<close> has the four members the source reads and writes, each a 64-bit
  count of seconds. \<^verbatim>\<open>delta()\<close> reads only the member that \<^verbatim>\<open>init\<close> wrote for the same
  directive, so whether the four share their storage plays no role here. The member
  \<^verbatim>\<open>directive_\<close> is the field \<open>directive_mem\<close>.
\<close>

record payload =
  maxAge :: "64 word"
  sMaxAge :: "64 word"
  maxStale :: "64 word"
  minFresh :: "64 word"

record CacheDirective =
  directive_mem :: Directive
  data :: payload

text \<open>\<^verbatim>\<open>data.maxAge = delta.count()\<close>: the signed count stored in the 64-bit member.\<close>

definition member_of_count :: "seconds \<Rightarrow> 64 word" where
  "member_of_count d = word_of_int (count d)"

definition init :: "CacheDirective \<Rightarrow> Directive \<Rightarrow> seconds \<Rightarrow> CacheDirective" where
  "init this directive delta =
     (let this = this\<lparr>directive_mem := directive\<rparr>
      in case directive of
           MaxAge \<Rightarrow> this\<lparr>data := (data this)\<lparr>maxAge := member_of_count delta\<rparr>\<rparr>
         | SMaxAge \<Rightarrow> this\<lparr>data := (data this)\<lparr>sMaxAge := member_of_count delta\<rparr>\<rparr>
         | MaxStale \<Rightarrow> this\<lparr>data := (data this)\<lparr>maxStale := member_of_count delta\<rparr>\<rparr>
         | MinFresh \<Rightarrow> this\<lparr>data := (data this)\<lparr>minFresh := member_of_count delta\<rparr>\<rparr>
         | _ \<Rightarrow> this)"

text \<open>
  The member initializers \<^verbatim>\<open>directive_()\<close> and \<^verbatim>\<open>data()\<close> zero both members before
  \<^verbatim>\<open>init\<close> runs. The enumerator numbered zero is taken to be \<open>NoCache\<close>; \<^verbatim>\<open>init\<close>
  overwrites it at once.
\<close>

definition value_initialized :: CacheDirective where
  "value_initialized =
     \<lparr>directive_mem = NoCache,
      data = \<lparr>maxAge = 0, sMaxAge = 0, maxStale = 0, minFresh = 0\<rparr>\<rparr>"

text \<open>The two constructors: from a directive alone, and from a directive and a duration.\<close>

definition CacheDirective1 :: "Directive \<Rightarrow> CacheDirective" where
  "CacheDirective1 directive = init value_initialized directive 0"

definition CacheDirective2 :: "Directive \<Rightarrow> seconds \<Rightarrow> CacheDirective" where
  "CacheDirective2 directive delta = init value_initialized directive delta"

definition delta :: "CacheDirective \<Rightarrow> error + seconds" where
  "delta this =
     (case directive_mem this of
        MaxAge \<Rightarrow> Inr (seconds_of_ull (maxAge (data this)))
      | SMaxAge \<Rightarrow> Inr (seconds_of_ull (sMaxAge (data this)))
      | MaxStale \<Rightarrow> Inr (seconds_of_ull (maxStale (data this)))
      | MinFresh \<Rightarrow> Inr (seconds_of_ull (minFresh (data this)))
      | _ \<Rightarrow> Inl (Domain_error ''Invalid operation on cache directive''))"

definition duration_bearing :: "Directive \<Rightarrow> bool" where
  "duration_bearing d = (d = MaxAge \<or> d = SMaxAge \<or> d = MaxStale \<or> d = MinFresh)"

subsection \<open>FullDate::write\<close>

text \<open>
  \<^verbatim>\<open>FullDate::Type\<close> is a scoped enumeration with four enumerators; a value of its
  underlying type that names none of them (\<^verbatim>\<open>static_cast<FullDate::Type>(n)\<close>) is
  \<open>Type_other n\<close>.
\<close>

datatype Type = RFC1123 | RFC1123GMT | RFC850 | AscTime | Type_other int

record tm =
  tm_sec :: int
  tm_min :: int
  tm_hour :: int
  tm_mday :: int
  tm_mon :: int
  tm_year :: int
  tm_wday :: int
  tm_yday :: int
  tm_isdst :: int

text \<open>
  What the host contributes to formatted output: the abbreviated day and month names of
  the stream's locale, and the name of the local time zone, which \<^verbatim>\<open>%Z\<close> prints.
\<close>

record host =
  abday :: "int \<Rightarrow> string"
  abmon :: "int \<Rightarrow> string"
  tzname :: string

definition digit :: "nat \<Rightarrow> char" where
  "digit n = ''0123456789'' ! (n mod 10)"

fun decimal :: "nat \<Rightarrow> string" where
  "decimal n = (if n < 10 then [digit n] else decimal (n div 10) @ [digit n])"

declare decimal.simps [simp del]

definition show_int :: "int \<Rightarrow> string" where
  "show_int i = (if i < 0 then CHR ''-'' # decimal (nat (- i)) else decimal (nat i))"

definition two_digits :: "int \<Rightarrow> string" where
  "two_digits i = (if 0 \<le> i \<and> i < 10 then CHR ''0'' # show_int i else show_int i)"

text \<open>
  One conversion specification of \<^verbatim>\<open>strftime\<close>, as the \<^verbatim>\<open>time_put\<close> facet behind
  \<^verbatim>\<open>std::put_time\<close> renders it. A conversion outside this list is copied with its
  percent sign.
\<close>

definition do_put :: "host \<Rightarrow> tm \<Rightarrow> char \<Rightarrow> string" where
  "do_put h t f =
     (if f = CHR ''a'' then abday h (tm_wday t)
      else if f = CHR ''b'' then abmon h (tm_mon t)
      else if f = CHR ''d'' then two_digits (tm_mday t)
      else if f = CHR ''Y'' then show_int (tm_year t + 1900)
      else if f = CHR ''H'' then two_digits (tm_hour t)
      else if f = CHR ''M'' then two_digits (tm_min t)
      else if f = CHR ''S'' then two_digits (tm_sec t)
      else if f = CHR ''T'' then
        two_digits (tm_hour t) @ '':'' @ two_digits (tm_min t) @ '':'' @ two_digits (tm_sec t)
      else if f = CHR ''Z'' then tzname h
      else if f = CHR ''%'' then ''%''
      else [CHR ''%'', f])"

text \<open>
  \<^verbatim>\<open>os << std::put_time(&tm, fmt)\<close>: the characters of the pattern are copied, and a
  percent sign with the character after it is one conversion.
\<close>

fun put_time :: "host \<Rightarrow> tm \<Rightarrow> string \<Rightarrow> string" where
  "put_time h t [] = []"
| "put_time h t [c] = [c]"
| "put_time h t (c # f # fmt) =
     (if c = CHR ''%'' then do_put h t f @ put_time h t fmt
      else c # put_time h t (f # fmt))"

text \<open>
  \<^verbatim>\<open>std::chrono::system_clock::to_time_t\<close>: the count of seconds since the epoch.
\<close>

definition to_time_t :: "time_point \<Rightarrow> int" where
  "to_time_t tp = count (time_since_epoch tp)"

text \<open>
  \<^verbatim>\<open>date::to_stream\<close> belongs to the date library and \<^verbatim>\<open>PST_GMTIME_R\<close> is a macro of the
  header for the host's \<^verbatim>\<open>gmtime_r\<close>; both are parameters. \<open>to_stream h fmt tp\<close> is the
  text the library writes on host \<open>h\<close>, and \<open>gmtime t\<close> is the broken-down UTC time of
  \<open>t\<close>, which does not consult the local time zone. The conversion is taken to succeed,
  as it does for every instant a time point of the system clock can hold.

  The stream is the text written to it so far; \<open>FullDate_write\<close>, the member
  \<^verbatim>\<open>FullDate::write\<close>, returns it extended. In the
  \<^verbatim>\<open>default\<close> branch the source constructs a \<^verbatim>\<open>std::runtime_error\<close> and does not throw
  it: the statement has no effect.
\<close>

definition FullDate_write ::
  "(host \<Rightarrow> string \<Rightarrow> time_point \<Rightarrow> string) \<Rightarrow> (int \<Rightarrow> tm) \<Rightarrow> host \<Rightarrow>
   string \<Rightarrow> Type \<Rightarrow> FullDate \<Rightarrow> error + string" where
  "FullDate_write to_stream gmtime h os type this =
     (case type of
        RFC1123 \<Rightarrow> Inr (os @ to_stream h ''%a, %d %b %Y %T %Z'' (date_mem this))
      | RFC1123GMT \<Rightarrow>
          (let t = to_time_t (date_mem this);
               gmtm = gmtime t
           in Inr (os @ put_time h gmtm ''%a, %d %b %Y %T GMT''))
      | RFC850 \<Rightarrow> Inr (os @ to_stream h ''%a, %d-%b-%y %T %Z'' (date_mem this))
      | AscTime \<Rightarrow> Inr (os @ to_stream h ''%a %b %d %T %Y'' (date_mem this))
      | Type_other n \<Rightarrow> Inr os)"

subsection \<open>Display strings\<close>

text \<open>
  \<^verbatim>\<open>Version\<close> has two enumerators; \<open>Version_other n\<close> is a value of the underlying type
  that names neither, for which the \<^verbatim>\<open>switch\<close> falls through to \<^verbatim>\<open>unreachable()\<close>.
\<close>

datatype Version = Http10 | Http11 | Version_other int

fun versionString :: "Version \<Rightarrow> error + string" where
  "versionString Http10 = Inr ''HTTP/1.0''"
| "versionString Http11 = Inr ''HTTP/1.1''"
| "versionString (Version_other n) = Inl Unreachable"

text \<open>
  The macro \<^verbatim>\<open>HTTP_METHODS\<close> is a list of entries \<^verbatim>\<open>METHOD(name, str)\<close> and
  \<^verbatim>\<open>STATUS_CODES\<close> a list of entries \<^verbatim>\<open>CODE(value, name, str)\<close>; both are defined in the
  header and are parameters here. Each entry expands to one \<^verbatim>\<open>case\<close> of the \<^verbatim>\<open>switch\<close>,
  in the order of the list. A method or a code is identified by the enumerator that names
  it.
\<close>

fun methodString :: "('m \<times> string) list \<Rightarrow> 'm \<Rightarrow> error + string" where
  "methodString [] method = Inl Unreachable"
| "methodString ((name, str) # HTTP_METHODS) method =
     (if method = name then Inr str else methodString HTTP_METHODS method)"

fun codeString :: "(int \<times> 'c \<times> string) list \<Rightarrow> 'c \<Rightarrow> string" where
  "codeString [] code = []"
| "codeString ((v, name, str) # STATUS_CODES) code =
     (if code = name then str else codeString STATUS_CODES code)"

text \<open>
  Modelled from the spec: the entries of \<^verbatim>\<open>HTTP_METHODS\<close> are not in the source file. The
  spec says of them that every enumerator of \<open>Method\<close> maps to a non-empty string: a table
  of methods is one whose strings are all non-empty.
\<close>

definition methods_table :: "('m \<times> string) list \<Rightarrow> bool" where
  "methods_table HTTP_METHODS = list_all (\<lambda>entry. snd entry \<noteq> []) HTTP_METHODS"

text \<open>The classic locale on a host in the zone \<open>CET\<close>, and tables of three entries each.\<close>

definition classic_host :: host where
  "classic_host =
     \<lparr>abday = (\<lambda>i. if 0 \<le> i \<and> i < 7
                    then [''Sun'', ''Mon'', ''Tue'', ''Wed'', ''Thu'', ''Fri'', ''Sat''] ! nat i
                    else ''?''),
      abmon = (\<lambda>i. if 0 \<le> i \<and> i < 12
                    then [''Jan'', ''Feb'', ''Mar'', ''Apr'', ''May'', ''Jun'',
                          ''Jul'', ''Aug'', ''Sep'', ''Oct'', ''Nov'', ''Dec''] ! nat i
                    else ''?''),
      tzname = ''CET''\<rparr>"

definition some_methods :: "(string \<times> string) list" where
  "some_methods = [(''Get'', ''GET''), (''Post'', ''POST''), (''Put'', ''PUT'')]"

definition some_codes :: "(int \<times> string \<times> string) list" where
  "some_codes =
     [(200, ''Ok'', ''OK''), (404, ''Not_Found'', ''Not Found''),
      (500, ''Internal_Server_Error'', ''Internal Server Error'')]"

section \<open>Properties\<close>

lemmas recognizers =
  parse_RFC_1123_def parse_RFC_850_def parse_asctime_def tabulated_parse_def

subsection \<open>The epoch recognizer on strings of digits\<close>

lemma isdigit_not_isspace: "isdigit c \<Longrightarrow> \<not> isspace c"
  by (auto simp: isdigit_def isspace_def)

lemma isdigit_not_sign: "isdigit c \<Longrightarrow> c \<noteq> CHR ''-'' \<and> c \<noteq> CHR ''+''"
  by (auto simp: isdigit_def)

lemma takeWhile_only_digits: "only_digits s \<Longrightarrow> takeWhile isdigit s = s"
  by (induction s) (simp_all split: if_splits)

text \<open>
  On a non-empty string of digits \<^verbatim>\<open>std::stoull\<close> converts the whole string, or reports
  that the value does not fit.
\<close>

lemma stoull_only_digits:
  assumes "only_digits s" and "s \<noteq> []"
  shows "stoull s =
           (if 18446744073709551615 < accumulate 0 s then Inl Out_of_range
            else Inr (word_of_nat (accumulate 0 s)))"
proof -
  obtain c cs where s: "s = c # cs"
    using assms(2) by (cases s) auto
  with assms(1) have c: "isdigit c"
    by (simp split: if_splits)
  have d: "dropWhile isspace s = s"
    using c s by (simp add: isdigit_not_isspace)
  have t: "takeWhile isdigit s = s"
    using assms(1) by (rule takeWhile_only_digits)
  have h: "hd s \<noteq> CHR ''-''" "hd s \<noteq> CHR ''+''"
    using c s isdigit_not_sign by auto
  have s2: "(if s \<noteq> [] \<and> (hd s = CHR ''-'' \<or> hd s = CHR ''+'') then tl s else s) = s"
    using h by simp
  show ?thesis
    unfolding stoull_def Let_def d s2 t using h assms(2) by simp
qed

lemma parse_epoch_only_digits:
  assumes "only_digits s" and "s \<noteq> []"
  shows "parse_epoch s =
           (if 18446744073709551615 < accumulate 0 s then Inr None
            else Inr (Some (TimePoint (seconds_of_ull (word_of_nat (accumulate 0 s))))))"
  using assms by (simp add: parse_epoch_def stoull_only_digits)

text \<open>The recognizer succeeds only on non-empty strings of digits.\<close>

lemma parse_epoch_success:
  "parse_epoch s = Inr (Some tp) \<Longrightarrow> only_digits s \<and> s \<noteq> []"
  by (auto simp: parse_epoch_def stoull_def split: if_splits sum.splits error.splits)

text \<open>On every non-empty string the recognizer returns; no exception leaves it.\<close>

lemma parse_epoch_returns:
  "s \<noteq> [] \<Longrightarrow> \<exists>r. parse_epoch s = Inr r"
  by (cases "only_digits s") (simp_all add: parse_epoch_only_digits, simp add: parse_epoch_def)

text \<open>A string of digits whose value is above \<open>2^64 - 1\<close> is not recognized.\<close>

lemma parse_epoch_overflow:
  "only_digits s \<Longrightarrow> 18446744073709551615 < accumulate 0 s \<Longrightarrow> parse_epoch s = Inr None"
  by (cases "s = []") (simp_all add: parse_epoch_only_digits)

lemma seconds_of_ull_id: "seconds_of_ull v = v"
  by (simp add: seconds_of_ull_def)

lemma member_of_count_id: "member_of_count d = d"
  by (simp add: member_of_count_def count_def)

lemma count_word_of_nat:
  assumes "n < 9223372036854775808"
  shows "count (word_of_nat n :: seconds) = int n"
proof -
  have "sint (word_of_nat n :: 64 word) = signed_take_bit 63 (int n)"
    using sint_sbintrunc' [where ?'a = 64, of "int n"] by simp
  also have "\<dots> = int n"
    using assms by (intro signed_take_bit_int_eq_self) simp_all
  finally show ?thesis
    by (simp add: count_def)
qed

text \<open>
  Below \<open>2^63\<close> the count of seconds handed to the time point is the value of the digits.
\<close>

lemma parse_epoch_in_range:
  assumes "only_digits s" and "s \<noteq> []" and "accumulate 0 s < 9223372036854775808"
  shows "\<exists>tp. parse_epoch s = Inr (Some tp) \<and> count (time_since_epoch tp) = int (accumulate 0 s)"
  using assms by (simp add: parse_epoch_only_digits seconds_of_ull_id count_word_of_nat)

text \<open>The decimal text of a number is a string of digits with that value.\<close>

lemma only_digits_append: "only_digits (xs @ ys) = (only_digits xs \<and> only_digits ys)"
  by (induction xs) simp_all

lemma accumulate_snoc: "accumulate acc (xs @ [c]) = 10 * accumulate acc xs + digit_value c"
  by (induction xs arbitrary: acc) simp_all

lemma digit_is_digit: "isdigit (digit n) \<and> digit_value (digit n) = n mod 10"
proof -
  have "n mod 10 < 10" by simp
  then consider "n mod 10 = 0" | "n mod 10 = 1" | "n mod 10 = 2" | "n mod 10 = 3"
    | "n mod 10 = 4" | "n mod 10 = 5" | "n mod 10 = 6" | "n mod 10 = 7"
    | "n mod 10 = 8" | "n mod 10 = 9"
    by atomize_elim arith
  then show ?thesis
    by cases (simp_all add: digit_def isdigit_def digit_value_def)
qed

lemma decimal_digits:
  "only_digits (decimal n) \<and> decimal n \<noteq> [] \<and> accumulate 0 (decimal n) = n"
proof (induction n rule: decimal.induct)
  case (1 n)
  show ?case
  proof (cases "n < 10")
    case True
    then have "decimal n = [digit n]"
      by (subst decimal.simps) simp
    then show ?thesis
      using True by (simp add: digit_is_digit)
  next
    case False
    with "1" have ih: "only_digits (decimal (n div 10))"
      "accumulate 0 (decimal (n div 10)) = n div 10"
      by simp_all
    have d: "decimal n = decimal (n div 10) @ [digit n]"
      using False by (subst decimal.simps) simp
    show ?thesis
      unfolding d by (simp add: only_digits_append accumulate_snoc ih digit_is_digit)
  qed
qed

lemma parse_epoch_decimal_in_range:
  "n < 9223372036854775808 \<Longrightarrow>
   parse_epoch (decimal n) = Inr (Some (TimePoint (word_of_nat n))) \<and>
   count (word_of_nat n :: seconds) = int n"
  using decimal_digits [of n]
  by (simp add: parse_epoch_only_digits seconds_of_ull_id count_word_of_nat)

lemma parse_epoch_decimal_overflow:
  "18446744073709551615 < n \<Longrightarrow> parse_epoch (decimal n) = Inr None"
  using decimal_digits [of n] by (simp add: parse_epoch_overflow)

subsection \<open>The cascade of recognizers\<close>

text \<open>
  The order of the cascade: \<^verbatim>\<open>FullDate::fromString\<close> runs RFC 1123 (the pattern with
  spaces, then the pattern with dashes when the first fails), RFC 850, asctime, epoch. It
  returns the \<open>FullDate\<close> of the time point of the first recognizer that succeeds, and when
  all four return \<open>false\<close> it throws the runtime error \<open>Invalid Date format\<close>.
\<close>

lemma fromString_first_success:
  "(parse ''%a, %d %b %Y %T %Z'' s = Some tp \<longrightarrow> parse_RFC_1123 parse s = Some tp) \<and>
   (parse ''%a, %d %b %Y %T %Z'' s = None \<longrightarrow>
      parse_RFC_1123 parse s = parse ''%a, %d-%b-%Y %T %Z'' s) \<and>
   (parse_RFC_1123 parse s = Some tp \<longrightarrow> fromString parse s = Inr (FullDate tp)) \<and>
   (parse_RFC_1123 parse s = None \<and> parse_RFC_850 parse s = Some tp \<longrightarrow>
      fromString parse s = Inr (FullDate tp)) \<and>
   (parse_RFC_1123 parse s = None \<and> parse_RFC_850 parse s = None \<and>
    parse_asctime parse s = Some tp \<longrightarrow>
      fromString parse s = Inr (FullDate tp)) \<and>
   (parse_RFC_1123 parse s = None \<and> parse_RFC_850 parse s = None \<and>
    parse_asctime parse s = None \<and> parse_epoch s = Inr (Some tp) \<longrightarrow>
      fromString parse s = Inr (FullDate tp)) \<and>
   (parse_RFC_1123 parse s = None \<and> parse_RFC_850 parse s = None \<and>
    parse_asctime parse s = None \<and> parse_epoch s = Inr None \<longrightarrow>
      fromString parse s = Inl (Runtime_error ''Invalid Date format''))"
  by (simp add: fromString_def parse_RFC_1123_def)

text \<open>
  The cascade at six texts, one for each way through it: the two RFC 1123 patterns,
  RFC 850, asctime, epoch, and a text that no recognizer accepts.
\<close>

lemma fromString_first_success_examples:
  "fromString tabulated_parse ''Mon, 02 Jan 2006 15:04:05 GMT'' =
     Inr (FullDate (TimePoint 1136214245)) \<and>
   fromString tabulated_parse ''Mon, 26-May-2025 18:38:48 GMT'' =
     Inr (FullDate (TimePoint 1748284728)) \<and>
   fromString tabulated_parse ''Sunday, 06-Nov-94 08:49:37 GMT'' =
     Inr (FullDate (TimePoint 784111777)) \<and>
   fromString tabulated_parse ''Sun Nov  6 08:49:37 1994'' =
     Inr (FullDate (TimePoint 784111777)) \<and>
   fromString tabulated_parse ''784111777'' = Inr (FullDate (TimePoint 784111777)) \<and>
   fromString tabulated_parse ''not a date'' = Inl (Runtime_error ''Invalid Date format'')"
proof -
  have e1: "parse_epoch ''784111777'' = Inr (Some (TimePoint 784111777))"
    by (simp add: parse_epoch_def stoull_def isdigit_def isspace_def digit_value_def
        seconds_of_ull_def)
  have e2: "parse_epoch ''not a date'' = Inr None"
    by (simp add: parse_epoch_def isdigit_def)
  have "fromString tabulated_parse ''Mon, 02 Jan 2006 15:04:05 GMT'' =
      Inr (FullDate (TimePoint 1136214245))"
    using fromString_first_success
      [of tabulated_parse "''Mon, 02 Jan 2006 15:04:05 GMT''" "TimePoint 1136214245"]
    by (simp add: recognizers)
  moreover
  have "fromString tabulated_parse ''Mon, 26-May-2025 18:38:48 GMT'' =
      Inr (FullDate (TimePoint 1748284728))"
    using fromString_first_success
      [of tabulated_parse "''Mon, 26-May-2025 18:38:48 GMT''" "TimePoint 1748284728"]
    by (simp add: recognizers)
  moreover
  have "fromString tabulated_parse ''Sunday, 06-Nov-94 08:49:37 GMT'' =
      Inr (FullDate (TimePoint 784111777))"
    using fromString_first_success
      [of tabulated_parse "''Sunday, 06-Nov-94 08:49:37 GMT''" "TimePoint 784111777"]
    by (simp add: recognizers)
  moreover
  have "fromString tabulated_parse ''Sun Nov  6 08:49:37 1994'' =
      Inr (FullDate (TimePoint 784111777))"
    using fromString_first_success
      [of tabulated_parse "''Sun Nov  6 08:49:37 1994''" "TimePoint 784111777"]
    by (simp add: recognizers)
  moreover
  have "fromString tabulated_parse ''784111777'' = Inr (FullDate (TimePoint 784111777))"
    using fromString_first_success
      [of tabulated_parse "''784111777''" "TimePoint 784111777"] e1
    by (simp add: recognizers)
  moreover
  have "fromString tabulated_parse ''not a date'' = Inl (Runtime_error ''Invalid Date format'')"
    using fromString_first_success [of tabulated_parse "''not a date''"] e2
    by (simp add: recognizers)
  ultimately show ?thesis
    by simp
qed

text \<open>
  The only exception that leaves the epoch recognizer is the one of the empty string, and
  there it leaves \<^verbatim>\<open>FullDate::fromString\<close> too, whatever date library rejects the empty
  text.
\<close>

lemma parse_epoch_throws_only_on_empty:
  "parse_epoch s = Inl e \<Longrightarrow> s = [] \<and> e = Invalid_argument"
proof (cases "s = []")
  case True
  moreover assume "parse_epoch s = Inl e"
  ultimately show ?thesis
    by (simp add: parse_epoch_def stoull_def)
next
  case False
  moreover assume "parse_epoch s = Inl e"
  ultimately show ?thesis
    using parse_epoch_returns [of s] by auto
qed

lemma fromString_empty_any_library:
  "parse ''%a, %d %b %Y %T %Z'' [] = None \<Longrightarrow> parse ''%a, %d-%b-%Y %T %Z'' [] = None \<Longrightarrow>
   parse ''%A, %d-%b-%y %T %Z'' [] = None \<Longrightarrow> parse ''%a %b %d %T %Y'' [] = None \<Longrightarrow>
   fromString parse [] = Inl Invalid_argument"
  by (simp add: fromString_def parse_RFC_1123_def parse_RFC_850_def parse_asctime_def
      parse_epoch_def stoull_def)

text \<open>
  On every text but the empty one the cascade has two outcomes only: the \<open>FullDate\<close> of
  the first recognizer that succeeds, or the runtime error \<open>Invalid Date format\<close>.
\<close>

lemma fromString_nonempty:
  assumes "s \<noteq> []"
  shows "(\<exists>tp. fromString parse s = Inr (FullDate tp)) \<or>
         (parse_RFC_1123 parse s = None \<and> parse_RFC_850 parse s = None \<and>
          parse_asctime parse s = None \<and> parse_epoch s = Inr None \<and>
          fromString parse s = Inl (Runtime_error ''Invalid Date format''))"
proof -
  from assms obtain r where r: "parse_epoch s = Inr r"
    using parse_epoch_returns by blast
  then show ?thesis
    by (cases r) (auto simp: fromString_def split: option.splits)
qed

text \<open>
  C1: for every input text, \<^verbatim>\<open>FullDate::fromString\<close> should return the time point of the
  first recognizer that succeeds and end in the runtime error \<open>Invalid Date format\<close> when
  none does. On the empty text the source does otherwise: the three textual recognizers
  fail, the epoch recognizer neither succeeds nor returns failure, and parsing ends in
  \<^verbatim>\<open>std::invalid_argument\<close>, not in \<open>Invalid Date format\<close>.
\<close>

theorem fromString_empty_leaves_cascade:
  "parse_RFC_1123 tabulated_parse [] = None \<and>
   parse_RFC_850 tabulated_parse [] = None \<and>
   parse_asctime tabulated_parse [] = None \<and>
   parse_epoch [] \<noteq> Inr None \<and>
   fromString tabulated_parse [] \<noteq> Inl (Runtime_error ''Invalid Date format'') \<and>
   fromString tabulated_parse [] = Inl Invalid_argument"
  by (simp add: fromString_def recognizers parse_epoch_def stoull_def)

text \<open>
  C3: the decimal text of every \<open>n\<close> up to \<open>2^64 - 1\<close> should parse to the epoch plus \<open>n\<close>
  seconds, without wrapping. At \<open>n = 2^64 - 1\<close> the source does otherwise:
  \<^verbatim>\<open>std::stoull\<close> accepts the value, the signed count of \<^verbatim>\<open>std::chrono::seconds\<close> takes it
  modulo \<open>2^64\<close>, and the time point is one second before the epoch.
\<close>

theorem parse_epoch_wraps_to_negative:
  "parse_epoch ''18446744073709551615'' = Inr (Some (TimePoint (- 1))) \<and>
   count (time_since_epoch (TimePoint (- 1))) = - 1 \<and>
   fromString tabulated_parse ''18446744073709551615'' = Inr (FullDate (TimePoint (- 1)))"
  by (simp add: fromString_def recognizers parse_epoch_def stoull_def isdigit_def
      isspace_def digit_value_def seconds_of_ull_def count_def)

text \<open>
  C7: the empty string should be a failure of the epoch recognizer, so that parsing it ends
  in the runtime error \<open>Invalid Date format\<close>. In the source the loop over the characters
  of the empty string finds nothing to reject, \<^verbatim>\<open>std::stoull\<close> throws
  \<^verbatim>\<open>std::invalid_argument\<close>, the handler catches \<^verbatim>\<open>std::out_of_range\<close> only, and the
  exception leaves \<^verbatim>\<open>parse_epoch\<close> and \<^verbatim>\<open>FullDate::fromString\<close>.
\<close>

theorem fromString_empty_invalid_argument:
  "parse_epoch [] = Inl Invalid_argument \<and>
   fromString tabulated_parse [] = Inl Invalid_argument"
  by (simp add: fromString_def recognizers parse_epoch_def stoull_def)

text \<open>
  C8 as stated, that the failure carries the original input text, does not hold: two
  different texts that no recognizer accepts end in the same failure, whose message is
  neither of them.
\<close>

theorem fromString_failure_text_counterexample:
  "fromString tabulated_parse ''not a date'' = Inl (Runtime_error ''Invalid Date format'') \<and>
   fromString tabulated_parse ''tomorrow'' = Inl (Runtime_error ''Invalid Date format'') \<and>
   ''not a date'' \<noteq> ''tomorrow''"
  by (simp add: fromString_def recognizers parse_epoch_def isdigit_def)

text \<open>
  C8, amended: when all four recognizers return failure, the failure surfaced to the caller
  is a runtime error with the fixed message \<open>Invalid Date format\<close>, the same for every
  input text.
\<close>

theorem fromString_failure_fixed_message:
  "parse_RFC_1123 parse s = None \<Longrightarrow> parse_RFC_850 parse s = None \<Longrightarrow>
   parse_asctime parse s = None \<Longrightarrow> parse_epoch s = Inr None \<Longrightarrow>
   fromString parse s = Inl (Runtime_error ''Invalid Date format'')"
  by (simp add: fromString_def)

text \<open>The amended C8 at the text \<open>yesterday\<close>, which all four recognizers reject.\<close>

theorem fromString_failure_fixed_message_witness:
  "parse_RFC_1123 tabulated_parse ''yesterday'' = None \<and>
   parse_RFC_850 tabulated_parse ''yesterday'' = None \<and>
   parse_asctime tabulated_parse ''yesterday'' = None \<and>
   parse_epoch ''yesterday'' = Inr None \<and>
   fromString tabulated_parse ''yesterday'' = Inl (Runtime_error ''Invalid Date format'')"
proof -
  have a: "parse_RFC_1123 tabulated_parse ''yesterday'' = None"
    by (simp add: recognizers)
  have b: "parse_RFC_850 tabulated_parse ''yesterday'' = None"
    by (simp add: recognizers)
  have c: "parse_asctime tabulated_parse ''yesterday'' = None"
    by (simp add: recognizers)
  have d: "parse_epoch ''yesterday'' = Inr None"
    by (simp add: parse_epoch_def isdigit_def)
  from a b c d fromString_failure_fixed_message [OF a b c d] show ?thesis
    by simp
qed

subsection \<open>Formatting\<close>

lemma put_time_RFC1123_GMT:
  "put_time h t ''%a, %d %b %Y %T GMT'' =
     do_put h t CHR ''a'' @ '', '' @ do_put h t CHR ''d'' @ '' '' @ do_put h t CHR ''b'' @
     '' '' @ do_put h t CHR ''Y'' @ '' '' @ do_put h t CHR ''T'' @ '' GMT''"
  by simp

text \<open>Only the conversion \<^verbatim>\<open>%Z\<close> reads the name of the local time zone.\<close>

lemma do_put_tzname:
  "f \<noteq> CHR ''Z'' \<Longrightarrow> do_put (h\<lparr>tzname := z\<rparr>) t f = do_put h t f"
  by (simp add: do_put_def)

text \<open>The pattern of the \<open>RFC1123GMT\<close> branch on the broken-down time of the epoch.\<close>

lemma put_time_epoch:
  "put_time classic_host
     \<lparr>tm_sec = 0, tm_min = 0, tm_hour = 0, tm_mday = 1, tm_mon = 0, tm_year = 70,
      tm_wday = 4, tm_yday = 0, tm_isdst = 0\<rparr>
     ''%a, %d %b %Y %T GMT'' =
   ''Thu, 01 Jan 1970 00:00:00 GMT''"
  by (simp add: classic_host_def do_put_def two_digits_def show_int_def digit_def
      decimal.simps)

text \<open>
  C4: for every stored time point, formatting with the tag \<open>RFC1123GMT\<close> appends a text
  that ends in the literal \<open>GMT\<close>, and the text is the same on a host whose local time
  zone is configured differently.
\<close>

theorem write_RFC1123GMT_ends_in_GMT:
  "\<exists>out. FullDate_write to_stream gmtime h os RFC1123GMT d = Inr (os @ out) \<and>
         suffix ''GMT'' out \<and>
         FullDate_write to_stream gmtime (h\<lparr>tzname := z\<rparr>) os RFC1123GMT d = Inr (os @ out)"
proof -
  let ?t = "gmtime (to_time_t (date_mem d))"
  let ?out = "put_time h ?t ''%a, %d %b %Y %T GMT''"
  have w: "FullDate_write to_stream gmtime h os RFC1123GMT d = Inr (os @ ?out)"
    by (simp add: FullDate_write_def Let_def)
  have "?out = (do_put h ?t CHR ''a'' @ '', '' @ do_put h ?t CHR ''d'' @ '' '' @
      do_put h ?t CHR ''b'' @ '' '' @ do_put h ?t CHR ''Y'' @ '' '' @ do_put h ?t CHR ''T'' @
      '' '') @ ''GMT''"
    by (simp only: put_time_RFC1123_GMT) simp
  then have g: "suffix ''GMT'' ?out"
    unfolding suffix_def by blast
  have "put_time (h\<lparr>tzname := z\<rparr>) ?t ''%a, %d %b %Y %T GMT'' = ?out"
    by (simp only: put_time_RFC1123_GMT) (simp add: do_put_tzname)
  then have z: "FullDate_write to_stream gmtime (h\<lparr>tzname := z\<rparr>) os RFC1123GMT d =
      Inr (os @ ?out)"
    by (simp add: FullDate_write_def Let_def)
  from w g z show ?thesis
    by blast
qed

text \<open>
  C6: a format tag outside the four enumerators should make formatting fail at once. In the
  source the \<^verbatim>\<open>default\<close> branch constructs the exception without throwing it:
  \<^verbatim>\<open>FullDate::write\<close> returns normally and has written nothing.
\<close>

theorem write_unlisted_tag_no_failure:
  "FullDate_write to_stream gmtime h os (Type_other n) d = Inr os"
  by (simp add: FullDate_write_def)

subsection \<open>Cache directives\<close>

text \<open>
  C5: \<^verbatim>\<open>delta()\<close> returns a duration exactly when the directive is one of \<open>MaxAge\<close>,
  \<open>SMaxAge\<close>, \<open>MaxStale\<close>, \<open>MinFresh\<close>. On a directive constructed with a duration it is
  that duration, on one constructed from the kind alone it is zero seconds, and for every
  other kind \<^verbatim>\<open>delta()\<close> throws the domain error \<open>Invalid operation on cache directive\<close>.
\<close>

theorem delta_duration_bearing:
  "delta (CacheDirective2 d dl) =
     (if duration_bearing d then Inr dl
      else Inl (Domain_error ''Invalid operation on cache directive'')) \<and>
   delta (CacheDirective1 d) =
     (if duration_bearing d then Inr 0
      else Inl (Domain_error ''Invalid operation on cache directive'')) \<and>
   ((\<exists>x. delta c = Inr x) \<longleftrightarrow> duration_bearing (directive_mem c)) \<and>
   (\<not> duration_bearing (directive_mem c) \<longrightarrow>
      delta c = Inl (Domain_error ''Invalid operation on cache directive''))"
  by (cases d; cases "directive_mem c")
    (simp_all add: delta_def CacheDirective1_def CacheDirective2_def init_def
      value_initialized_def duration_bearing_def seconds_of_ull_id member_of_count_id)

text \<open>C5 at \<open>MaxAge\<close> with 3600 seconds, and at \<open>NoCache\<close>.\<close>

theorem delta_duration_bearing_witness:
  "delta (CacheDirective2 MaxAge 3600) = Inr 3600 \<and>
   \<not> duration_bearing (directive_mem (CacheDirective1 NoCache)) \<and>
   delta (CacheDirective1 NoCache) = Inl (Domain_error ''Invalid operation on cache directive'')"
proof -
  have n: "\<not> duration_bearing (directive_mem (CacheDirective1 NoCache))"
    by (simp add: CacheDirective1_def init_def duration_bearing_def)
  from n delta_duration_bearing [of MaxAge 3600 "CacheDirective1 NoCache"]
  show ?thesis
    by (simp add: duration_bearing_def)
qed

text \<open>
  C10: both constructors, and \<^verbatim>\<open>init\<close> on any object, record the directive they are given,
  whatever the duration; for a flag-only kind \<^verbatim>\<open>init\<close> leaves the payload as it was.
\<close>

theorem init_records_directive:
  "directive_mem (CacheDirective1 d) = d \<and>
   directive_mem (CacheDirective2 d dl) = d \<and>
   directive_mem (init c d dl) = d \<and>
   (\<not> duration_bearing d \<longrightarrow> data (init c d dl) = data c)"
  by (cases d)
    (simp_all add: CacheDirective1_def CacheDirective2_def init_def duration_bearing_def)

text \<open>C10 at the flag-only \<open>NoStore\<close> and at \<open>SMaxAge\<close>, each with 60 seconds.\<close>

theorem init_records_directive_witness:
  "\<not> duration_bearing NoStore \<and>
   directive_mem (CacheDirective2 NoStore 60) = NoStore \<and>
   data (init value_initialized NoStore 60) = data value_initialized \<and>
   directive_mem (CacheDirective2 SMaxAge 60) = SMaxAge"
proof -
  have n: "\<not> duration_bearing NoStore"
    by (simp add: duration_bearing_def)
  from n init_records_directive [of NoStore 60 value_initialized]
    init_records_directive [of SMaxAge 60 value_initialized]
  show ?thesis
    by simp
qed

subsection \<open>Display strings\<close>

lemma methodString_entry:
  "methods_table tbl \<Longrightarrow> m \<in> fst ` set tbl \<Longrightarrow>
   \<exists>str. methodString tbl m = Inr str \<and> str \<noteq> []"
proof (induction tbl)
  case Nil
  then show ?case by simp
next
  case (Cons entry tbl)
  obtain name str where entry: "entry = (name, str)"
    by (cases entry)
  show ?case
  proof (cases "m = name")
    case True
    with Cons.prems(1) entry show ?thesis
      by (simp add: methods_table_def)
  next
    case False
    with Cons.prems entry have "methods_table tbl" and "m \<in> fst ` set tbl"
      by (auto simp: methods_table_def)
    with Cons.IH False entry show ?thesis
      by simp
  qed
qed

lemma codeString_unmapped:
  "code \<notin> (\<lambda>entry. fst (snd entry)) ` set tbl \<Longrightarrow> codeString tbl code = []"
  by (induction tbl) auto

text \<open>
  C9: \<open>versionString\<close> maps \<open>Http11\<close> to \<open>HTTP/1.1\<close> and \<open>Http10\<close> to \<open>HTTP/1.0\<close>;
  \<open>methodString\<close> maps every enumerator of a table of methods to a non-empty string, and
  \<open>codeString\<close> maps every code that has no entry in the table of codes to the empty
  string.
\<close>

theorem display_strings:
  "versionString Http11 = Inr ''HTTP/1.1'' \<and>
   versionString Http10 = Inr ''HTTP/1.0'' \<and>
   (methods_table HTTP_METHODS \<and> m \<in> fst ` set HTTP_METHODS \<longrightarrow>
      (\<exists>str. methodString HTTP_METHODS m = Inr str \<and> str \<noteq> [])) \<and>
   (code \<notin> (\<lambda>entry. fst (snd entry)) ` set STATUS_CODES \<longrightarrow>
      codeString STATUS_CODES code = [])"
  using methodString_entry [of HTTP_METHODS m] codeString_unmapped [of code STATUS_CODES]
  by simp

text \<open>C9 on tables of three entries: the method \<open>Post\<close>, and a code without an entry.\<close>

theorem display_strings_witness:
  "methods_table some_methods \<and> ''Post'' \<in> fst ` set some_methods \<and>
   (\<exists>str. methodString some_methods ''Post'' = Inr str \<and> str \<noteq> []) \<and>
   ''Teapot'' \<notin> (\<lambda>entry. fst (snd entry)) ` set some_codes \<and>
   codeString some_codes ''Teapot'' = []"
proof -
  have a: "methods_table some_methods"
    by (simp add: methods_table_def some_methods_def)
  have b: "''Post'' \<in> fst ` set some_methods"
    by (simp add: some_methods_def)
  have c: "''Teapot'' \<notin> (\<lambda>entry. fst (snd entry)) ` set some_codes"
    by (simp add: some_codes_def)
  from a b c display_strings [of some_methods "''Post''" "''Teapot''" some_codes]
  show ?thesis
    by simp
qed

end
